theory Spec2Isabelle
  imports Main "HOL-Library.Mapping" "HOL-Library.AList_Mapping"
begin

section \<open>Data model\<close>

text \<open>
  The structs of the package, as records. A Go \<^verbatim>\<open>*string\<close> is a \<open>string option\<close>
  (\<open>None\<close> is the nil pointer), a \<^verbatim>\<open>time.Time\<close> is a natural number whose zero is the
  zero instant (\<^verbatim>\<open>IsZero\<close>), a \<^verbatim>\<open>time.Duration\<close> is an integer, a
  \<^verbatim>\<open>map[string]string\<close> is a \<open>(string, string) mapping\<close>.
\<close>

type_synonym addr = nat
type_synonym Time = nat

record Retry =
  Delay :: int

record Localization =
  Locale :: string
  Message :: string

record Resource =
  Type :: string
  Name :: string
  Owner :: string
  Description :: string

record Help =
  Description :: string
  URL :: string

record QuotaViolation =
  Subject :: string
  Description :: string

record PreconditionViolation =
  Type :: string
  Subject :: string
  Description :: string

record FieldViolation =
  Field :: string
  Description :: string

record stackTraceFrame =
  pc :: nat
  "file" :: string
  "function" :: string
  line :: int

type_synonym stackTrace = "stackTraceFrame list"

text \<open>
  The struct \<^verbatim>\<open>Error\<close> (error.go, lines 14 to 47) is split in two: its field
  \<^verbatim>\<open>err\<close>, which holds the cause and makes the type recursive, and the record
  \<open>Attrs\<close> of all its other fields, in the order of the source.

  \<^item> \<open>metadata\<close> is a Go map, a reference: the field holds the address of a map object
    (\<open>None\<close> is the nil map) and the contents live in the store of the \<open>world\<close> below,
    so that two structs holding the same address see each other's writes.
  \<^item> The slices are kept by their contents (a list of the elements between index 0 and
    \<^verbatim>\<open>len\<close>). The backing arrays, and with them what \<^verbatim>\<open>append\<close> does to another
    slice sharing spare capacity, are outside this model: nothing below is derived from
    two slices being independent.
\<close>

record Attrs =
  message :: "string option"
  reason :: "string option"
  domain :: "string option"
  metadata :: "addr option"
  quotaViolations :: "QuotaViolation list"
  preconditionViolations :: "PreconditionViolation list"
  fieldViolations :: "FieldViolation list"
  userID :: "string option"
  tenantID :: "string option"
  trace :: "string option"
  span :: "string option"
  requestID :: "string option"
  tags :: "string list"
  time :: Time
  "help" :: Help
  resource :: Resource
  localizations :: "Localization list"
  retry :: Retry
  stackTrace :: stackTrace

text \<open>
  A value of the interface type \<^verbatim>\<open>error\<close>. \<open>Nil\<close> is the nil interface. The foreign
  errors are the four kinds of the standard library, each a pointer compared by its
  address: \<^verbatim>\<open>*errors.errorString\<close> (\<^verbatim>\<open>errors.New\<close>, and \<^verbatim>\<open>fmt.Errorf\<close> without
  \<^verbatim>\<open>%w\<close>), \<^verbatim>\<open>*fmt.wrapError\<close> (one \<^verbatim>\<open>%w\<close>), \<^verbatim>\<open>*fmt.wrapErrors\<close> (several) and
  \<^verbatim>\<open>*errors.joinError\<close>. \<open>ErrorPtr a e\<close> is a non-nil \<^verbatim>\<open>*Error\<close>: the node \<open>e\<close> at
  address \<open>a\<close>. The cause is held by value, so a chain is finite and a node sees the
  cause as it was when it was wrapped. An interface holding a nil \<^verbatim>\<open>*Error\<close> is not
  represented: no function of the package returns one (\<^verbatim>\<open>Wrap\<close> returns the nil
  interface itself).
\<close>

datatype error =
    Nil
  | ErrorString addr string
  | WrapError addr string error
  | WrapErrors addr string "error list"
  | JoinError addr "error list"
  | ErrorPtr addr Error
and Error = Error (err: error) (attrs: Attrs)

text \<open>\<^verbatim>\<open>type ErrorBuilder Error\<close>: the builder is the same struct, passed by value.\<close>

type_synonym ErrorBuilder = Error

text \<open>A \<^verbatim>\<open>*Error\<close> as a method receiver: \<open>None\<close> is the nil pointer.\<close>

type_synonym Error_ptr = "(addr \<times> Error) option"

definition with_attrs :: "Error \<Rightarrow> (Attrs \<Rightarrow> Attrs) \<Rightarrow> Error" where
  "with_attrs e f = Error (err e) (f (attrs e))"

text \<open>A run-time panic is a value; a function that can panic returns \<open>panic + 'a\<close>.\<close>

datatype panic = NilDereference | IndexOutOfRange

subsection \<open>The environment\<close>

text \<open>
  What the code reads from outside itself is a field of the \<open>world\<close>: the store of map
  objects and the allocator, the strings \<^verbatim>\<open>uuid.NewString\<close> returns (by call number),
  the instants \<^verbatim>\<open>time.Now\<close> returns (by call number), and the frames
  \<^verbatim>\<open>runtime.Caller\<close> reports at the current call site.
\<close>

record caller =
  caller_pc :: nat
  caller_file :: string
  caller_line :: int
  caller_func :: "string option"
  isGoPkg :: bool
  isThisPkg :: bool
  isExamplePkg :: bool
  isTestPkg :: bool

record world =
  maps :: "addr \<Rightarrow> (string, string) mapping"
  next_addr :: addr
  uuids :: "nat \<Rightarrow> string"
  uuid_calls :: nat
  clock :: "nat \<Rightarrow> Time"
  clock_calls :: nat
  callers :: "caller list"

definition alloc :: "world \<Rightarrow> addr \<times> world" where
  "alloc w = (next_addr w, w\<lparr>next_addr := Suc (next_addr w)\<rparr>)"

definition uuid_NewString :: "world \<Rightarrow> string \<times> world" where
  "uuid_NewString w = (uuids w (uuid_calls w), w\<lparr>uuid_calls := Suc (uuid_calls w)\<rparr>)"

definition time_Now :: "world \<Rightarrow> Time \<times> world" where
  "time_Now w = (clock w (clock_calls w), w\<lparr>clock_calls := Suc (clock_calls w)\<rparr>)"

definition IsZero :: "Time \<Rightarrow> bool" where
  "IsZero t = (t = 0)"


section \<open>The standard library and the helper packages, as far as the code uses them\<close>

subsection \<open>\<^verbatim>\<open>errors.As\<close> with a target of type \<^verbatim>\<open>**Error\<close>\<close>

text \<open>
  \<^verbatim>\<open>errors.As(err, &child)\<close> walks the tree below \<open>err\<close>, depth first: a value of
  dynamic type \<^verbatim>\<open>*Error\<close> is assigned to \<open>child\<close> and ends the search with true; a
  \<^verbatim>\<open>*fmt.wrapError\<close> is unwrapped (a nil result ends the search with false); the errors
  of a \<^verbatim>\<open>Unwrap() []error\<close> are tried in order, the nil ones skipped; anything else
  ends the search with false. \<open>None\<close> is the result false.
\<close>

fun errors_As :: "error \<Rightarrow> (addr \<times> Error) option"
  and errors_As_list :: "error list \<Rightarrow> (addr \<times> Error) option" where
  "errors_As Nil = None"
| "errors_As (ErrorString a s) = None"
| "errors_As (WrapError a s e) = errors_As e"
| "errors_As (WrapErrors a s es) = errors_As_list es"
| "errors_As (JoinError a es) = errors_As_list es"
| "errors_As (ErrorPtr a e) = Some (a, e)"
| "errors_As_list [] = None"
| "errors_As_list (e # es) =
     (case errors_As e of Some child \<Rightarrow> Some child | None \<Rightarrow> errors_As_list es)"

subsection \<open>Equality of interface values, \<^verbatim>\<open>errors.Is\<close> and the method \<^verbatim>\<open>Is\<close>\<close>

text \<open>
  Two interface values are equal when they have the same dynamic type and, all the
  types here being pointers, the same address.
\<close>

fun iface_eq :: "error \<Rightarrow> error \<Rightarrow> bool" where
  "iface_eq Nil Nil = True"
| "iface_eq (ErrorString a s) (ErrorString b t) = (a = b)"
| "iface_eq (WrapError a s e) (WrapError b t f) = (a = b)"
| "iface_eq (WrapErrors a s es) (WrapErrors b t fs) = (a = b)"
| "iface_eq (JoinError a es) (JoinError b fs) = (a = b)"
| "iface_eq (ErrorPtr a e) (ErrorPtr b f) = (a = b)"
| "iface_eq x y = False"

text \<open>
  \<open>errors_is\<close> is the loop of \<^verbatim>\<open>errors.is\<close> (every target here is comparable): the
  value itself is compared with the target, then its method \<^verbatim>\<open>Is\<close> is asked when it
  has one (only \<^verbatim>\<open>*Error\<close> has), then it is unwrapped. \<open>Error_Is\<close> is the method of
  error.go, lines 69 to 74, and \<open>errors_Is\<close> the exported function with its nil test.
\<close>

lemma size_err_less: "size (err e) < size e"
  by (cases e) simp

lemma size_err_twice:
  "2 * size (err e) \<le> Suc (2 * size e)" "Suc (2 * size (err e)) \<le> 2 * size e"
  using size_err_less [of e] by simp_all

function errors_Is :: "error \<Rightarrow> error \<Rightarrow> bool"
  and errors_is :: "error \<Rightarrow> error \<Rightarrow> bool"
  and errors_is_list :: "error list \<Rightarrow> error \<Rightarrow> bool"
  and Error_Is :: "addr \<Rightarrow> Error \<Rightarrow> error \<Rightarrow> bool" where
  "errors_Is e target =
     (if e = Nil \<or> target = Nil then e = target else errors_is e target)"
| "errors_is Nil target = False"
| "errors_is (ErrorString a s) target = iface_eq (ErrorString a s) target"
| "errors_is (WrapError a s e) target =
     (if iface_eq (WrapError a s e) target then True
      else if e = Nil then False else errors_is e target)"
| "errors_is (WrapErrors a s es) target =
     (if iface_eq (WrapErrors a s es) target then True else errors_is_list es target)"
| "errors_is (JoinError a es) target =
     (if iface_eq (JoinError a es) target then True else errors_is_list es target)"
| "errors_is (ErrorPtr a e) target =
     (if iface_eq (ErrorPtr a e) target then True
      else if Error_Is a e target then True
      else if err e = Nil then False else errors_is (err e) target)"
| "errors_is_list [] target = False"
| "errors_is_list (e # es) target =
     (if errors_is e target then True else errors_is_list es target)"
| "Error_Is a e target =
     (if errors_Is (err e) target then True else iface_eq (ErrorPtr a e) target)"
  by pat_completeness auto
termination
  by (relation "measure (\<lambda>x. case x of
         Inl (Inl (e, t)) \<Rightarrow> 2 * size e + 1
       | Inl (Inr (e, t)) \<Rightarrow> 2 * size e
       | Inr (Inl (es, t)) \<Rightarrow> 2 * size_list size es
       | Inr (Inr (a, e, t)) \<Rightarrow> 2 * size e + 1)")
     (auto simp: less_Suc_eq_le size_err_twice)

text \<open>
  The equations of \<open>errors_Is\<close> and \<open>Error_Is\<close> have no pattern on the left: they are
  unfolded by name where a proof needs them.
\<close>

declare errors_Is.simps [simp del] Error_Is.simps [simp del]

subsection \<open>\<^verbatim>\<open>errors.Join\<close> and \<^verbatim>\<open>fmt.Errorf\<close>\<close>

text \<open>
  \<^verbatim>\<open>errors.Join\<close> drops the nil errors and returns nil when none is left; otherwise
  it allocates a \<^verbatim>\<open>*joinError\<close> holding the others in order.
\<close>

definition errors_Join :: "error list \<Rightarrow> world \<Rightarrow> error \<times> world" where
  "errors_Join errs w =
     (let es = filter (\<lambda>e. e \<noteq> Nil) errs
      in if es = [] then (Nil, w)
         else (case alloc w of (a, w') \<Rightarrow> (JoinError a es, w')))"

text \<open>
  The interpolation of \<^verbatim>\<open>fmt.Errorf(format, args...)\<close> is the work of package fmt.
  A call is given here by what it yields: the interpolated text \<open>s\<close> and the errors
  \<open>ws\<close> that the \<^verbatim>\<open>%w\<close> verbs of the format are applied to, in order. With no such
  error the result is a \<^verbatim>\<open>*errors.errorString\<close>, with one a \<^verbatim>\<open>*fmt.wrapError\<close>, with
  several a \<^verbatim>\<open>*fmt.wrapErrors\<close>. A nil operand wraps nothing.
\<close>

definition fmt_Errorf :: "string \<Rightarrow> error list \<Rightarrow> world \<Rightarrow> error \<times> world" where
  "fmt_Errorf s ws w =
     (case alloc w of (a, w') \<Rightarrow>
        ((case filter (\<lambda>e. e \<noteq> Nil) ws of
            [] \<Rightarrow> ErrorString a s
          | [e] \<Rightarrow> WrapError a s e
          | e # es \<Rightarrow> WrapErrors a s (e # es)), w'))"

subsection \<open>The method \<^verbatim>\<open>Error() string\<close>\<close>

text \<open>
  \<open>error_Error x\<close> is the call \<^verbatim>\<open>x.Error()\<close> on an interface value: on the nil
  interface it panics; the foreign errors return their text, a \<^verbatim>\<open>*joinError\<close> the
  texts of its errors separated by newlines (it indexes its first error without a
  test). \<open>Error_Error\<close> is the method of error.go, lines 50 to 63, on a non-nil
  receiver.
\<close>

fun error_Error :: "error \<Rightarrow> panic + string"
  and join_rest :: "error list \<Rightarrow> panic + string"
  and Error_Error :: "Error \<Rightarrow> panic + string" where
  "error_Error Nil = Inl NilDereference"
| "error_Error (ErrorString a s) = Inr s"
| "error_Error (WrapError a s e) = Inr s"
| "error_Error (WrapErrors a s es) = Inr s"
| "error_Error (JoinError a []) = Inl IndexOutOfRange"
| "error_Error (JoinError a (e # es)) =
     (case error_Error e of
        Inl p \<Rightarrow> Inl p
      | Inr b \<Rightarrow> (case join_rest es of Inl p \<Rightarrow> Inl p | Inr t \<Rightarrow> Inr (b @ t)))"
| "error_Error (ErrorPtr a e) = Error_Error e"
| "join_rest [] = Inr []"
| "join_rest (e # es) =
     (case error_Error e of
        Inl p \<Rightarrow> Inl p
      | Inr b \<Rightarrow> (case join_rest es of Inl p \<Rightarrow> Inl p | Inr t \<Rightarrow> Inr (CHR 0x0A # b @ t)))"
| "Error_Error (Error c at) =
     (let sb = (case message at of
                  Some m \<Rightarrow> m @ (if c \<noteq> Nil then '': '' else [])
                | None \<Rightarrow> [])
      in if c \<noteq> Nil
         then (case error_Error c of Inl p \<Rightarrow> Inl p | Inr t \<Rightarrow> Inr (sb @ t))
         else Inr sb)"

definition Error_Error_ptr :: "Error_ptr \<Rightarrow> panic + string" where
  "Error_Error_ptr p = (case p of None \<Rightarrow> Inl NilDereference | Some (a, e) \<Rightarrow> Error_Error e)"

text \<open>\<^verbatim>\<open>Unwrap\<close>, error.go, lines 65 to 67.\<close>

definition Error_Unwrap :: "Error_ptr \<Rightarrow> panic + error" where
  "Error_Unwrap p = (case p of None \<Rightarrow> Inl NilDereference | Some (a, e) \<Rightarrow> Inr (err e))"

subsection \<open>Package lo\<close>

text \<open>
  \<^verbatim>\<open>lo.Uniq\<close> keeps the first occurrence of every element, in order: a loop over the
  collection with the set of the elements seen so far.
\<close>

fun lo_Uniq_loop :: "'a list \<Rightarrow> 'a set \<Rightarrow> 'a list \<Rightarrow> 'a list" where
  "lo_Uniq_loop [] seen result = result"
| "lo_Uniq_loop (x # xs) seen result =
     (if x \<in> seen then lo_Uniq_loop xs seen result
      else lo_Uniq_loop xs (insert x seen) (result @ [x]))"

definition lo_Uniq :: "'a list \<Rightarrow> 'a list" where
  "lo_Uniq collection = lo_Uniq_loop collection {} []"

text \<open>\<^verbatim>\<open>lo.Slice(collection, start, end)\<close>: the bounds are clamped to the collection.\<close>

definition lo_Slice :: "'a list \<Rightarrow> int \<Rightarrow> int \<Rightarrow> 'a list" where
  "lo_Slice collection start finish =
     (let size = int (length collection)
      in if start \<ge> finish then []
         else let start1 = (if start > size then size else start);
                  start2 = (if start1 < 0 then 0 else start1);
                  finish1 = (if finish > size then size else finish);
                  finish2 = (if finish1 < 0 then 0 else finish1)
              in take (nat finish2 - nat start2) (drop (nat start2) collection))"

text \<open>\<^verbatim>\<open>lo.Assign\<close> merges maps into a new one, the later maps winning.\<close>

definition lo_Assign :: "('k, 'v) mapping list \<Rightarrow> ('k, 'v) mapping" where
  "lo_Assign ms = foldl (Mapping.combine (\<lambda>old new. new)) Mapping.empty ms"

text \<open>\<^verbatim>\<open>lo.Coalesce\<close> on strings: the first non-empty one, if any.\<close>

fun lo_Coalesce :: "string list \<Rightarrow> string \<times> bool" where
  "lo_Coalesce [] = ([], False)"
| "lo_Coalesce (v # vs) = (if v \<noteq> [] then (v, True) else lo_Coalesce vs)"

subsection \<open>Package strings and the decimal text of an integer\<close>

definition strings_HasSuffix :: "string \<Rightarrow> string \<Rightarrow> bool" where
  "strings_HasSuffix s suffix =
     (length suffix \<le> length s \<and> drop (length s - length suffix) s = suffix)"

fun strings_Join :: "string list \<Rightarrow> string \<Rightarrow> string" where
  "strings_Join [] sep = []"
| "strings_Join [x] sep = x"
| "strings_Join (x # y # ys) sep = x @ sep @ strings_Join (y # ys) sep"

definition digit_char :: "nat \<Rightarrow> char" where
  "digit_char d = ''0123456789'' ! d"

function nat_decimal :: "nat \<Rightarrow> string" where
  "nat_decimal n = (if n < 10 then [digit_char n] else nat_decimal (n div 10) @ [digit_char (n mod 10)])"
  by pat_completeness auto
termination
  by (relation "measure id") auto

text \<open>The verb \<^verbatim>\<open>%v\<close> applied to an \<^verbatim>\<open>int\<close>.\<close>

definition fmt_int :: "int \<Rightarrow> string" where
  "fmt_int i = (if i < 0 then CHR ''-'' # nat_decimal (nat (- i)) else nat_decimal (nat i))"

section \<open>stack\_trace.go\<close>

definition StackTraceMaxDepth :: nat where
  "StackTraceMaxDepth = 50"

text \<open>
  \<^verbatim>\<open>newStacktrace\<close>, lines 25 to 61. The loop asks \<^verbatim>\<open>runtime.Caller(i)\<close> for
  \<open>i = 0, 1, ...\<close>; the list is what it answers, one \<open>caller\<close> per index, and its end
  is the answer \<^verbatim>\<open>!ok\<close>. A \<open>caller\<close> carries the file after \<^verbatim>\<open>removeGoPath\<close>, the
  shortened function name (\<open>None\<close> when \<^verbatim>\<open>runtime.FuncForPC\<close> returns nil) and the
  four tests on the file name that decide whether the frame is kept.
\<close>

fun newStacktrace_loop :: "caller list \<Rightarrow> stackTrace \<Rightarrow> stackTrace" where
  "newStacktrace_loop [] frames = frames"
| "newStacktrace_loop (c # cs) frames =
     (if length frames < StackTraceMaxDepth then
        (case caller_func c of
           None \<Rightarrow> frames
         | Some fn \<Rightarrow>
             if \<not> isGoPkg c \<and> (\<not> isThisPkg c \<or> isExamplePkg c \<or> isTestPkg c)
             then newStacktrace_loop cs
                    (frames @ [\<lparr>pc = caller_pc c, file = caller_file c,
                                function = fn, line = caller_line c\<rparr>])
             else newStacktrace_loop cs frames)
      else frames)"

definition newStacktrace :: "world \<Rightarrow> stackTrace" where
  "newStacktrace w = newStacktrace_loop (callers w) []"

text \<open>\<^verbatim>\<open>stackTraceFrame.String\<close> and \<^verbatim>\<open>Equals\<close>, lines 113 to 124.\<close>

definition frame_String :: "stackTraceFrame \<Rightarrow> string" where
  "frame_String f =
     (if function f \<noteq> []
      then file f @ '':'' @ fmt_int (line f) @ '' '' @ function f @ ''()''
      else file f @ '':'' @ fmt_int (line f))"

definition frame_Equals :: "stackTraceFrame \<Rightarrow> stackTraceFrame \<Rightarrow> bool" where
  "frame_Equals f other =
     (file f = file other \<and> function f = function other \<and> line f = line other)"

text \<open>\<^verbatim>\<open>StringUntilFrame\<close>, lines 80 to 100: the loop with its accumulator \<open>s\<close>.\<close>

fun StringUntilFrame_loop :: "stackTrace \<Rightarrow> stackTraceFrame \<Rightarrow> string \<Rightarrow> string" where
  "StringUntilFrame_loop [] deepestFrame s = s"
| "StringUntilFrame_loop (frame # st) deepestFrame s =
     (if file frame = [] then StringUntilFrame_loop st deepestFrame s
      else if frame_String frame = [] then s
      else if frame_Equals frame deepestFrame then s
      else StringUntilFrame_loop st deepestFrame
             ((if s \<noteq> [] \<and> \<not> strings_HasSuffix s [CHR 0x0A] then s @ [CHR 0x0A] else s)
              @ ''  --- at '' @ frame_String frame))"

definition StringUntilFrame :: "stackTrace \<Rightarrow> stackTraceFrame \<Rightarrow> string" where
  "StringUntilFrame st deepestFrame = StringUntilFrame_loop st deepestFrame []"

definition zero_frame :: stackTraceFrame where
  "zero_frame = \<lparr>pc = 0, file = [], function = [], line = 0\<rparr>"

definition stackTrace_String :: "stackTrace \<Rightarrow> string" where
  "stackTrace_String st = StringUntilFrame st zero_frame"

section \<open>The helpers: \<^verbatim>\<open>recursive\<close>, \<^verbatim>\<open>recursiveAttr\<close>, \<^verbatim>\<open>deepCopyPtr\<close>, \<^verbatim>\<open>coalesceOrEmpty\<close>\<close>

lemma errors_As_size:
  "errors_As x = Some (a, c) \<Longrightarrow> size c < size x"
  "errors_As_list xs = Some (a, c) \<Longrightarrow> size c < size_list size xs"
  by (induction x and xs rule: errors_As_errors_As_list.induct)
     (auto split: option.splits)

lemma errors_As_err_size: "errors_As (err e) = Some (a, c) \<Longrightarrow> size c < size e"
  using errors_As_size(1) [of "err e" a c] size_err_less [of e] by simp

text \<open>
  \<^verbatim>\<open>recursive(err, tap)\<close>, lines 10 to 25 of the helpers. The closure \<open>tap\<close> writes
  to variables of its caller; here it is a function on their values \<open>s\<close>, and
  \<open>recursive\<close> returns them as the calls have left them.
\<close>

function recursive :: "Error_ptr \<Rightarrow> (Error \<Rightarrow> 's \<Rightarrow> 's) \<Rightarrow> 's \<Rightarrow> 's" where
  "recursive None tap s = s"
| "recursive (Some (a, e)) tap s =
     (let s' = tap e s
      in if err e = Nil then s'
         else (case errors_As (err e) of
                 Some child \<Rightarrow> recursive (Some child) tap s'
               | None \<Rightarrow> s'))"
  by pat_completeness auto
termination
  by (relation "measure (\<lambda>(p, tap, s). case p of None \<Rightarrow> 0 | Some (a, e) \<Rightarrow> size e)")
     (auto dest: errors_As_err_size)

text \<open>
  \<^verbatim>\<open>recursiveAttr(err, attr)\<close>, lines 27 to 43. \<open>zero\<close> is the zero value of the
  type parameter \<^verbatim>\<open>T\<close>.
\<close>

function recursiveAttr :: "Error_ptr \<Rightarrow> (Error \<Rightarrow> 't) \<Rightarrow> 't \<Rightarrow> 't" where
  "recursiveAttr None attr zero = zero"
| "recursiveAttr (Some (a, e)) attr zero =
     (if err e = Nil then attr e
      else (case errors_As (err e) of
              Some child \<Rightarrow> recursiveAttr (Some child) attr zero
            | None \<Rightarrow> attr e))"
  by pat_completeness auto
termination
  by (relation "measure (\<lambda>(p, attr, zero). case p of None \<Rightarrow> 0 | Some (a, e) \<Rightarrow> size e)")
     (auto dest: errors_As_err_size)

definition deepCopyPtr :: "'a option \<Rightarrow> 'a option" where
  "deepCopyPtr p = (case p of None \<Rightarrow> None | Some v \<Rightarrow> Some v)"

definition coalesceOrEmpty :: "string list \<Rightarrow> string" where
  "coalesceOrEmpty v = fst (lo_Coalesce v)"

section \<open>The builder\<close>

text \<open>The contents of the map a field refers to; reading the nil map finds nothing.\<close>

definition map_contents :: "world \<Rightarrow> addr option \<Rightarrow> (string, string) mapping" where
  "map_contents w r = (case r of None \<Rightarrow> Mapping.empty | Some m \<Rightarrow> maps w m)"

definition zero_Help :: Help where
  "zero_Help = \<lparr>Help.Description = [], URL = []\<rparr>"

definition zero_Resource :: Resource where
  "zero_Resource = \<lparr>Resource.Type = [], Name = [], Owner = [], Resource.Description = []\<rparr>"

definition zero_Retry :: Retry where
  "zero_Retry = \<lparr>Delay = 0\<rparr>"

text \<open>\<^verbatim>\<open>newBuilder\<close>: every field nil or zero, except \<open>time\<close>, which is \<^verbatim>\<open>time.Now()\<close>.\<close>

definition newBuilder :: "world \<Rightarrow> ErrorBuilder \<times> world" where
  "newBuilder w =
     (case time_Now w of (now, w') \<Rightarrow>
        (Error Nil
           \<lparr>message = None, reason = None, domain = None, metadata = None,
            quotaViolations = [], preconditionViolations = [], fieldViolations = [],
            userID = None, tenantID = None,
            trace = None, span = None, requestID = None, tags = [], time = now,
            help = zero_Help, resource = zero_Resource, localizations = [],
            retry = zero_Retry, stackTrace = []\<rparr>, w'))"

text \<open>
  \<^verbatim>\<open>deepCopy\<close>: the struct literal of the source, field by field. It names neither
  \<^verbatim>\<open>requestID\<close> nor \<^verbatim>\<open>time\<close>, which are therefore nil and the zero instant in the
  copy. \<^verbatim>\<open>lo.Assign\<close> allocates the map of the copy.
\<close>

definition deepCopy :: "ErrorBuilder \<Rightarrow> world \<Rightarrow> ErrorBuilder \<times> world" where
  "deepCopy e w =
     (case alloc w of (m, w1) \<Rightarrow>
        (Error (err e)
           \<lparr>message = deepCopyPtr (message (attrs e)),
            reason = deepCopyPtr (reason (attrs e)),
            domain = deepCopyPtr (domain (attrs e)),
            metadata = Some m,
            quotaViolations =
              lo_Slice (quotaViolations (attrs e)) 0 (int (length (quotaViolations (attrs e)))),
            preconditionViolations =
              lo_Slice (preconditionViolations (attrs e)) 0
                (int (length (preconditionViolations (attrs e)))),
            fieldViolations =
              lo_Slice (fieldViolations (attrs e)) 0 (int (length (fieldViolations (attrs e)))),
            userID = deepCopyPtr (userID (attrs e)),
            tenantID = deepCopyPtr (tenantID (attrs e)),
            trace = deepCopyPtr (trace (attrs e)),
            span = deepCopyPtr (span (attrs e)),
            requestID = None,
            tags = lo_Slice (tags (attrs e)) 0 (int (length (tags (attrs e)))),
            time = 0,
            help = help (attrs e),
            resource = resource (attrs e),
            localizations =
              lo_Slice (localizations (attrs e)) 0 (int (length (localizations (attrs e)))),
            retry = retry (attrs e),
            stackTrace = []\<rparr>,
         w1\<lparr>maps := (maps w1)(m := lo_Assign [Mapping.empty, map_contents w (metadata (attrs e))])\<rparr>))"

subsection \<open>The setters\<close>

text \<open>
  The receiver of every setter is a copy of the caller's struct: the assignment to a
  field changes the copy only. A map is copied as its address, so the write
  \<^verbatim>\<open>e.metadata[key] = value\<close> goes to the map object the caller's struct refers to,
  unless that was nil and a new map was made for the copy.
\<close>

definition ErrorBuilder_Reason :: "ErrorBuilder \<Rightarrow> string \<Rightarrow> ErrorBuilder" where
  "ErrorBuilder_Reason e r = with_attrs e (\<lambda>x. x\<lparr>reason := Some r\<rparr>)"

definition ErrorBuilder_Domain :: "ErrorBuilder \<Rightarrow> string \<Rightarrow> ErrorBuilder" where
  "ErrorBuilder_Domain e d = with_attrs e (\<lambda>x. x\<lparr>domain := Some d\<rparr>)"

definition ErrorBuilder_WithMetadata ::
    "ErrorBuilder \<Rightarrow> string \<Rightarrow> string \<Rightarrow> world \<Rightarrow> ErrorBuilder \<times> world" where
  "ErrorBuilder_WithMetadata e key val w =
     (case (case metadata (attrs e) of
              None \<Rightarrow> (case alloc w of (m, w1) \<Rightarrow> (m, w1\<lparr>maps := (maps w1)(m := Mapping.empty)\<rparr>))
            | Some m \<Rightarrow> (m, w)) of
        (m, w2) \<Rightarrow>
          (with_attrs e (\<lambda>x. x\<lparr>metadata := Some m\<rparr>),
           w2\<lparr>maps := (maps w2)(m := Mapping.update key val (maps w2 m))\<rparr>))"

definition ErrorBuilder_WithQuotaViolation ::
    "ErrorBuilder \<Rightarrow> string \<Rightarrow> string \<Rightarrow> ErrorBuilder" where
  "ErrorBuilder_WithQuotaViolation e subject description =
     with_attrs e (\<lambda>x. x\<lparr>quotaViolations := quotaViolations x @
        [\<lparr>QuotaViolation.Subject = subject, QuotaViolation.Description = description\<rparr>]\<rparr>)"

definition ErrorBuilder_WithPreconditionViolation ::
    "ErrorBuilder \<Rightarrow> string \<Rightarrow> string \<Rightarrow> ErrorBuilder" where
  "ErrorBuilder_WithPreconditionViolation e subject description =
     with_attrs e (\<lambda>x. x\<lparr>preconditionViolations := preconditionViolations x @
        [\<lparr>PreconditionViolation.Type = [], PreconditionViolation.Subject = subject,
          PreconditionViolation.Description = description\<rparr>]\<rparr>)"

definition ErrorBuilder_WithFieldViolation ::
    "ErrorBuilder \<Rightarrow> string \<Rightarrow> string \<Rightarrow> ErrorBuilder" where
  "ErrorBuilder_WithFieldViolation e field description =
     with_attrs e (\<lambda>x. x\<lparr>fieldViolations := fieldViolations x @
        [\<lparr>Field = field, FieldViolation.Description = description\<rparr>]\<rparr>)"

definition ErrorBuilder_UserID :: "ErrorBuilder \<Rightarrow> string \<Rightarrow> ErrorBuilder" where
  "ErrorBuilder_UserID e u = with_attrs e (\<lambda>x. x\<lparr>userID := Some u\<rparr>)"

definition ErrorBuilder_TenantID :: "ErrorBuilder \<Rightarrow> string \<Rightarrow> ErrorBuilder" where
  "ErrorBuilder_TenantID e t = with_attrs e (\<lambda>x. x\<lparr>tenantID := Some t\<rparr>)"

definition ErrorBuilder_Trace :: "ErrorBuilder \<Rightarrow> string \<Rightarrow> ErrorBuilder" where
  "ErrorBuilder_Trace e t = with_attrs e (\<lambda>x. x\<lparr>trace := Some t\<rparr>)"

definition ErrorBuilder_Span :: "ErrorBuilder \<Rightarrow> string \<Rightarrow> ErrorBuilder" where
  "ErrorBuilder_Span e sp = with_attrs e (\<lambda>x. x\<lparr>span := Some sp\<rparr>)"

definition ErrorBuilder_RequestID :: "ErrorBuilder \<Rightarrow> string \<Rightarrow> ErrorBuilder" where
  "ErrorBuilder_RequestID e r = with_attrs e (\<lambda>x. x\<lparr>requestID := Some r\<rparr>)"

definition ErrorBuilder_WithTag :: "ErrorBuilder \<Rightarrow> string \<Rightarrow> ErrorBuilder" where
  "ErrorBuilder_WithTag e tag = with_attrs e (\<lambda>x. x\<lparr>tags := tags x @ [tag]\<rparr>)"

definition ErrorBuilder_Help :: "ErrorBuilder \<Rightarrow> Help \<Rightarrow> ErrorBuilder" where
  "ErrorBuilder_Help e h = with_attrs e (\<lambda>x. x\<lparr>help := h\<rparr>)"

definition ErrorBuilder_Resource :: "ErrorBuilder \<Rightarrow> Resource \<Rightarrow> ErrorBuilder" where
  "ErrorBuilder_Resource e r = with_attrs e (\<lambda>x. x\<lparr>resource := r\<rparr>)"

definition ErrorBuilder_WithLocalization :: "ErrorBuilder \<Rightarrow> Localization \<Rightarrow> ErrorBuilder" where
  "ErrorBuilder_WithLocalization e l =
     with_attrs e (\<lambda>x. x\<lparr>localizations := localizations x @ [l]\<rparr>)"

definition ErrorBuilder_Retry :: "ErrorBuilder \<Rightarrow> Retry \<Rightarrow> ErrorBuilder" where
  "ErrorBuilder_Retry e r = with_attrs e (\<lambda>x. x\<lparr>retry := r\<rparr>)"

subsection \<open>The terminal operations\<close>

text \<open>
  \<^verbatim>\<open>wrap\<close>, lines 149 to 161 of the builder. The result is a \<^verbatim>\<open>*ErrorBuilder\<close>: nil,
  or the address of the copy.
\<close>

definition ErrorBuilder_wrap :: "ErrorBuilder \<Rightarrow> error \<Rightarrow> world \<Rightarrow> Error_ptr \<times> world" where
  "ErrorBuilder_wrap e er w =
     (if er = Nil then (None, w)
      else (case deepCopy e w of (e2, w1) \<Rightarrow>
        (case (if span (attrs e2) = None
               then (case uuid_NewString w1 of (u, w2) \<Rightarrow> (Some u, w2))
               else (span (attrs e2), w1)) of
           (sp, w3) \<Rightarrow>
             (case alloc w3 of (p, w4) \<Rightarrow>
                (Some (p, Error er ((attrs e2)\<lparr>span := sp, stackTrace := newStacktrace w3\<rparr>)),
                 w4)))))"

definition ErrorBuilder_Wrap :: "ErrorBuilder \<Rightarrow> error \<Rightarrow> world \<Rightarrow> error \<times> world" where
  "ErrorBuilder_Wrap e er w =
     (case ErrorBuilder_wrap e er w of
        (None, w') \<Rightarrow> (Nil, w')
      | (Some (p, e2), w') \<Rightarrow> (ErrorPtr p e2, w'))"

text \<open>
  \<^verbatim>\<open>Wrapf\<close>: the message is the text of \<^verbatim>\<open>fmt.Errorf(format, args...)\<close>, an error
  that is made for its text and dropped.
\<close>

definition ErrorBuilder_Wrapf ::
    "ErrorBuilder \<Rightarrow> error \<Rightarrow> string \<Rightarrow> error list \<Rightarrow> world \<Rightarrow> error \<times> world" where
  "ErrorBuilder_Wrapf e er s ws w =
     (case ErrorBuilder_wrap e er w of
        (None, w') \<Rightarrow> (Nil, w')
      | (Some (p, e2), w') \<Rightarrow>
          (case fmt_Errorf s ws w' of (f, w'') \<Rightarrow>
             (ErrorPtr p (with_attrs e2 (\<lambda>x. x\<lparr>message := Some s\<rparr>)), w'')))"

definition ErrorBuilder_Error :: "ErrorBuilder \<Rightarrow> string \<Rightarrow> world \<Rightarrow> error \<times> world" where
  "ErrorBuilder_Error e msg w =
     (case deepCopy e w of (e2, w1) \<Rightarrow>
        (case alloc w1 of (p, w2) \<Rightarrow>
           (ErrorPtr p (with_attrs e2
              (\<lambda>x. x\<lparr>message := Some msg, stackTrace := newStacktrace w1\<rparr>)), w2)))"

definition ErrorBuilder_Errorf ::
    "ErrorBuilder \<Rightarrow> string \<Rightarrow> error list \<Rightarrow> world \<Rightarrow> error \<times> world" where
  "ErrorBuilder_Errorf e s ws w =
     (case deepCopy e w of (e2, w1) \<Rightarrow>
        (case fmt_Errorf s ws w1 of (f, w2) \<Rightarrow>
           (case alloc w2 of (p, w3) \<Rightarrow>
              (ErrorPtr p (Error f ((attrs e2)\<lparr>stackTrace := newStacktrace w2\<rparr>)), w3))))"

definition ErrorBuilder_Join :: "ErrorBuilder \<Rightarrow> error list \<Rightarrow> world \<Rightarrow> error \<times> world" where
  "ErrorBuilder_Join e errs w =
     (case errors_Join errs w of (j, w1) \<Rightarrow> ErrorBuilder_Wrap e j w1)"

subsection \<open>The package-level functions\<close>

definition New :: "string \<Rightarrow> world \<Rightarrow> error \<times> world" where
  "New msg w = (case newBuilder w of (b, w1) \<Rightarrow> ErrorBuilder_Error b msg w1)"

definition Wrap :: "error \<Rightarrow> world \<Rightarrow> error \<times> world" where
  "Wrap er w = (case newBuilder w of (b, w1) \<Rightarrow> ErrorBuilder_Wrap b er w1)"

definition Wrapf :: "error \<Rightarrow> string \<Rightarrow> error list \<Rightarrow> world \<Rightarrow> error \<times> world" where
  "Wrapf er s ws w = (case newBuilder w of (b, w1) \<Rightarrow> ErrorBuilder_Wrapf b er s ws w1)"

definition Errorf :: "string \<Rightarrow> error list \<Rightarrow> world \<Rightarrow> error \<times> world" where
  "Errorf s ws w = (case newBuilder w of (b, w1) \<Rightarrow> ErrorBuilder_Errorf b s ws w1)"

definition Join :: "error list \<Rightarrow> world \<Rightarrow> error \<times> world" where
  "Join errs w = (case newBuilder w of (b, w1) \<Rightarrow> ErrorBuilder_Join b errs w1)"

section \<open>The accessors of error.go\<close>

text \<open>
  A method with receiver \<^verbatim>\<open>e *Error\<close> may be called on the nil pointer; it panics
  where it reads or writes a field of \<open>e\<close> then. The accessors that go through
  \<^verbatim>\<open>recursiveAttr\<close> or \<^verbatim>\<open>recursive\<close> only, which test for nil first, cannot panic
  and return their value directly.
\<close>

definition Error_Message :: "Error_ptr \<Rightarrow> string option" where
  "Error_Message p = recursiveAttr p (\<lambda>e. message (attrs e)) None"

definition Error_Reason :: "Error_ptr \<Rightarrow> string option" where
  "Error_Reason p = recursiveAttr p (\<lambda>e. reason (attrs e)) None"

definition Error_Domain :: "Error_ptr \<Rightarrow> string option" where
  "Error_Domain p = recursiveAttr p (\<lambda>e. domain (attrs e)) None"

definition Error_Metadata :: "Error_ptr \<Rightarrow> addr option" where
  "Error_Metadata p = recursiveAttr p (\<lambda>e. metadata (attrs e)) None"

definition Error_QuotaViolations :: "Error_ptr \<Rightarrow> QuotaViolation list" where
  "Error_QuotaViolations p = recursiveAttr p (\<lambda>e. quotaViolations (attrs e)) []"

definition Error_PreconditionViolations :: "Error_ptr \<Rightarrow> PreconditionViolation list" where
  "Error_PreconditionViolations p = recursiveAttr p (\<lambda>e. preconditionViolations (attrs e)) []"

definition Error_FieldViolations :: "Error_ptr \<Rightarrow> FieldViolation list" where
  "Error_FieldViolations p = recursiveAttr p (\<lambda>e. fieldViolations (attrs e)) []"

text \<open>
  \<^verbatim>\<open>Trace\<close>, lines 184 to 193: the value is read through \<^verbatim>\<open>recursiveAttr\<close>; when
  that is nil, a new identifier is written to the field of the receiver and returned.
  The result carries the receiver as the call leaves it.
\<close>

definition Error_Trace ::
    "Error_ptr \<Rightarrow> world \<Rightarrow> panic + (string option \<times> Error_ptr \<times> world)" where
  "Error_Trace p w =
     (case recursiveAttr p (\<lambda>e. trace (attrs e)) None of
        Some t \<Rightarrow> Inr (Some t, p, w)
      | None \<Rightarrow>
          (case uuid_NewString w of (traceID, w') \<Rightarrow>
             (case p of
                None \<Rightarrow> Inl NilDereference
              | Some (a, e) \<Rightarrow>
                  Inr (Some traceID, Some (a, with_attrs e (\<lambda>x. x\<lparr>trace := Some traceID\<rparr>)), w'))))"

definition Error_Span :: "Error_ptr \<Rightarrow> panic + string option" where
  "Error_Span p = (case p of None \<Rightarrow> Inl NilDereference | Some (a, e) \<Rightarrow> Inr (span (attrs e)))"

definition Error_RequestID :: "Error_ptr \<Rightarrow> panic + string option" where
  "Error_RequestID p =
     (case p of None \<Rightarrow> Inl NilDereference | Some (a, e) \<Rightarrow> Inr (requestID (attrs e)))"

definition Error_Tags :: "Error_ptr \<Rightarrow> string list" where
  "Error_Tags p = lo_Uniq (recursive p (\<lambda>e ts. ts @ tags (attrs e)) [])"

definition Error_Time :: "Error_ptr \<Rightarrow> world \<Rightarrow> panic + (Time \<times> Error_ptr \<times> world)" where
  "Error_Time p w =
     (let t = recursiveAttr p (\<lambda>e. time (attrs e)) 0
      in if IsZero t
         then (case time_Now w of (now, w') \<Rightarrow>
                 (case p of
                    None \<Rightarrow> Inl NilDereference
                  | Some (a, e) \<Rightarrow> Inr (now, Some (a, with_attrs e (\<lambda>x. x\<lparr>time := now\<rparr>)), w')))
         else Inr (t, p, w))"

definition Error_Help :: "Error_ptr \<Rightarrow> Help" where
  "Error_Help p = recursiveAttr p (\<lambda>e. help (attrs e)) zero_Help"

definition Error_Resource :: "Error_ptr \<Rightarrow> Resource" where
  "Error_Resource p = recursiveAttr p (\<lambda>e. resource (attrs e)) zero_Resource"

definition Error_Localizations :: "Error_ptr \<Rightarrow> Localization list" where
  "Error_Localizations p = recursiveAttr p (\<lambda>e. localizations (attrs e)) []"

definition Error_Retry :: "Error_ptr \<Rightarrow> Retry" where
  "Error_Retry p = recursiveAttr p (\<lambda>e. retry (attrs e)) zero_Retry"

text \<open>
  \<^verbatim>\<open>StackTrace\<close>, lines 76 to 106. The closure keeps \<open>blocks\<close> and \<open>topFrame\<close>; a
  panic inside it (the call \<^verbatim>\<open>ee.err.Error()\<close>) ends the whole call, so the state of
  the traversal is either the panic or the two variables.
\<close>

definition StackTrace_tap ::
    "Error \<Rightarrow> panic + (string list \<times> stackTraceFrame) \<Rightarrow> panic + (string list \<times> stackTraceFrame)" where
  "StackTrace_tap ee st =
     (case st of
        Inl x \<Rightarrow> Inl x
      | Inr (blocks, topFrame) \<Rightarrow>
          (case stackTrace (attrs ee) of
             [] \<Rightarrow> Inr (blocks, topFrame)
           | f0 # fs \<Rightarrow>
               (case (case message (attrs ee) of
                        Some m \<Rightarrow> Inr m
                      | None \<Rightarrow>
                          (case (if err ee \<noteq> Nil then error_Error (err ee) else Inr []) of
                             Inl x \<Rightarrow> Inl x
                           | Inr t \<Rightarrow> Inr (coalesceOrEmpty [t, ''Error'']))) of
                  Inl x \<Rightarrow> Inl x
                | Inr msg \<Rightarrow>
                    Inr ((msg @ [CHR 0x0A] @ StringUntilFrame (stackTrace (attrs ee)) topFrame)
                           # blocks, f0))))"

definition Error_StackTrace :: "Error_ptr \<Rightarrow> panic + string" where
  "Error_StackTrace p =
     (case recursive p StackTrace_tap (Inr ([], zero_frame)) of
        Inl x \<Rightarrow> Inl x
      | Inr (blocks, topFrame) \<Rightarrow>
          Inr (if blocks = [] then []
               else ''Error: '' @ strings_Join blocks (CHR 0x0A # ''Thrown: '')))"

subsection \<open>\<^verbatim>\<open>LogValue\<close>\<close>

text \<open>
  The values of package slog that \<^verbatim>\<open>LogValue\<close> builds. \<open>MapGroupValue m\<close> is the group
  of one string attribute per entry of \<open>m\<close>, in the order Go iterates the map;
  \<open>DurationText d\<close> is the string \<^verbatim>\<open>d.String()\<close> of a duration; the \<open>Any\<close> values
  carry the slice or struct they were given.
\<close>

datatype slog_Value =
    StringValue string
  | TimeValue Time
  | DurationText int
  | MapGroupValue "(string, string) mapping"
  | AnyQuotaViolations "QuotaViolation list"
  | AnyPreconditionViolations "PreconditionViolation list"
  | AnyFieldViolations "FieldViolation list"
  | AnyStrings "string list"
  | AnyLocalization Localization
  | GroupValue "slog_Attr list"
and slog_Attr = Attr string slog_Value

text \<open>
  \<^verbatim>\<open>LogValue\<close>, lines 255 to 377. The attributes are appended in the order of the
  source; the statements that read without writing are gathered in
  \<open>LogValue_upto_tenant\<close> (reason to tenantID) and \<open>LogValue_guidance\<close> (help to
  retry). The message attribute is added when \<^verbatim>\<open>e.Message()\<close>, the
  value resolved along the chain, is not nil, and its text is \<^verbatim>\<open>*e.message\<close>, the
  field of the receiver. The calls \<^verbatim>\<open>e.Trace()\<close> and \<^verbatim>\<open>e.Time()\<close> may write to the
  receiver; the result carries it as the call leaves it.
\<close>

definition LogValue_message :: "Error_ptr \<Rightarrow> Error \<Rightarrow> panic + slog_Attr list" where
  "LogValue_message p e =
     (case Error_Message p of
        None \<Rightarrow> Inr []
      | Some m \<Rightarrow>
          (case message (attrs e) of
             None \<Rightarrow> Inl NilDereference
           | Some own \<Rightarrow> Inr [Attr ''message'' (StringValue own)]))"

definition LogValue_upto_tenant :: "Error_ptr \<Rightarrow> Error \<Rightarrow> world \<Rightarrow> slog_Attr list" where
  "LogValue_upto_tenant p e w =
     (case Error_Reason p of None \<Rightarrow> [] | Some r \<Rightarrow> [Attr ''reason'' (StringValue r)])
     @ (case Error_Domain p of None \<Rightarrow> [] | Some d \<Rightarrow> [Attr ''domain'' (StringValue d)])
     @ (if \<not> Mapping.is_empty (map_contents w (metadata (attrs e)))
        then [Attr ''metadata'' (MapGroupValue (map_contents w (metadata (attrs e))))] else [])
     @ (if length (Error_QuotaViolations p) > 0
        then [Attr ''quotaViolations'' (AnyQuotaViolations (Error_QuotaViolations p))] else [])
     @ (if length (Error_PreconditionViolations p) > 0
        then [Attr ''preconditionViolations''
                (AnyPreconditionViolations (Error_PreconditionViolations p))] else [])
     @ (if length (Error_FieldViolations p) > 0
        then [Attr ''fieldViolations'' (AnyFieldViolations (Error_FieldViolations p))] else [])
     @ (case userID (attrs e) of None \<Rightarrow> [] | Some u \<Rightarrow> [Attr ''userId'' (StringValue u)])
     @ (case tenantID (attrs e) of None \<Rightarrow> [] | Some t \<Rightarrow> [Attr ''tenantId'' (StringValue t)])"

definition LogValue_guidance :: "Error_ptr \<Rightarrow> slog_Attr list" where
  "LogValue_guidance p =
     (if Error_Help p \<noteq> zero_Help
      then [Attr ''help'' (GroupValue
              [Attr ''description'' (StringValue (Help.Description (Error_Help p))),
               Attr ''url'' (StringValue (URL (Error_Help p)))])] else [])
     @ (if Error_Resource p \<noteq> zero_Resource
        then [Attr ''resource'' (GroupValue
                [Attr ''type'' (StringValue (Resource.Type (Error_Resource p))),
                 Attr ''name'' (StringValue (Name (Error_Resource p))),
                 Attr ''owner'' (StringValue (Owner (Error_Resource p))),
                 Attr ''description'' (StringValue (Resource.Description (Error_Resource p)))])]
        else [])
     @ (if length (Error_Localizations p) > 0
        then [Attr ''localizations'' (GroupValue
                (map (\<lambda>l. Attr ''!BADKEY'' (AnyLocalization l)) (Error_Localizations p)))]
        else [])
     @ (if Error_Retry p \<noteq> zero_Retry
        then [Attr ''retry'' (GroupValue [Attr ''delay'' (DurationText (Delay (Error_Retry p)))])]
        else [])"

definition LogValue :: "Error_ptr \<Rightarrow> world \<Rightarrow> panic + (slog_Value \<times> Error_ptr \<times> world)" where
  "LogValue p w =
     (case p of
        None \<Rightarrow> Inr (GroupValue [], None, w)
      | Some (a, e) \<Rightarrow>
          (case LogValue_message p e of
             Inl x \<Rightarrow> Inl x
           | Inr as1 \<Rightarrow>
          (case Error_Trace p w of
             Inl x \<Rightarrow> Inl x
           | Inr (tr, p1, w1) \<Rightarrow>
          (case Error_Span p1 of
             Inl x \<Rightarrow> Inl x
           | Inr sp \<Rightarrow>
          (case Error_RequestID p1 of
             Inl x \<Rightarrow> Inl x
           | Inr rq \<Rightarrow>
          (case Error_Time p1 w1 of
             Inl x \<Rightarrow> Inl x
           | Inr (t, p2, w2) \<Rightarrow>
          (case Error_StackTrace p2 of
             Inl x \<Rightarrow> Inl x
           | Inr st \<Rightarrow>
               Inr (GroupValue
                      (as1
                       @ LogValue_upto_tenant p e w
                       @ (case tr of None \<Rightarrow> [] | Some x \<Rightarrow> [Attr ''trace'' (StringValue x)])
                       @ (case sp of None \<Rightarrow> [] | Some x \<Rightarrow> [Attr ''span'' (StringValue x)])
                       @ (case rq of None \<Rightarrow> [] | Some x \<Rightarrow> [Attr ''requestId'' (StringValue x)])
                       @ (if length (Error_Tags p1) > 0
                          then [Attr ''tags'' (AnyStrings (Error_Tags p1))] else [])
                       @ (if \<not> IsZero t then [Attr ''time'' (TimeValue t)] else [])
                       @ LogValue_guidance p2
                       @ (if st \<noteq> [] then [Attr ''stackTrace'' (StringValue st)] else [])),
                    p2, w2))))))))"

section \<open>The chain of a node\<close>

text \<open>
  The library nodes the two traversals reach from a receiver, outermost first: the node
  itself, then the \<^verbatim>\<open>*Error\<close> that \<^verbatim>\<open>errors.As\<close> finds first in its cause, and so on.
  \<open>nest\<close> builds the plain chain in which each node wraps the next one directly and
  the innermost wraps \<open>base\<close>: \<open>nest [(a, A), (b, B)] base\<close> is the node \<open>A\<close> at
  address \<open>a\<close> wrapping \<open>B\<close> wrapping \<open>base\<close>. \<open>attrs0\<close> is a node's fields, all unset.
\<close>

function chain :: "Error_ptr \<Rightarrow> Error list" where
  "chain None = []"
| "chain (Some (a, e)) =
     e # (if err e = Nil then []
          else (case errors_As (err e) of
                  Some child \<Rightarrow> chain (Some child)
                | None \<Rightarrow> []))"
  by pat_completeness auto
termination
  by (relation "measure (\<lambda>p. case p of None \<Rightarrow> 0 | Some (a, e) \<Rightarrow> size e)")
     (auto dest: errors_As_err_size)

fun nest :: "(addr \<times> Attrs) list \<Rightarrow> error \<Rightarrow> error" where
  "nest [] base = base"
| "nest ((a, at) # rest) base = ErrorPtr a (Error (nest rest base) at)"

definition attrs0 :: Attrs where
  "attrs0 =
     \<lparr>message = None, reason = None, domain = None, metadata = None,
      quotaViolations = [], preconditionViolations = [], fieldViolations = [],
      userID = None, tenantID = None,
      trace = None, span = None, requestID = None, tags = [], time = 0,
      help = zero_Help, resource = zero_Resource, localizations = [],
      retry = zero_Retry, stackTrace = []\<rparr>"

section \<open>A concrete environment and the view of an error as a node\<close>

text \<open>
  \<open>as_Error\<close> is the type assertion \<^verbatim>\<open>err.(*Error)\<close> a caller makes to reach the
  accessors. \<open>world0\<close> is an environment to run the code in: an empty store, the
  identifiers \<open>uuid-0\<close>, \<open>uuid-1\<close>, ..., a clock that starts at 1000 and advances by one
  with every reading, and a call stack of the package's own frame below one frame of
  the application.
\<close>

fun as_Error :: "error \<Rightarrow> Error_ptr" where
  "as_Error (ErrorPtr a e) = Some (a, e)"
| "as_Error x = None"

definition world0 :: world where
  "world0 = \<lparr>maps = (\<lambda>a. Mapping.empty), next_addr = 0,
             uuids = (\<lambda>n. ''uuid-'' @ nat_decimal n), uuid_calls = 0,
             clock = (\<lambda>n. 1000 + n), clock_calls = 0,
             callers = [\<lparr>caller_pc = 1, caller_file = ''errors/stack_trace.go'', caller_line = 31,
                          caller_func = Some ''newStacktrace'', isGoPkg = False, isThisPkg = True,
                          isExamplePkg = False, isTestPkg = False\<rparr>,
                        \<lparr>caller_pc = 2, caller_file = ''app/main.go'', caller_line = 12,
                          caller_func = Some ''main'', isGoPkg = False, isThisPkg = False,
                          isExamplePkg = False, isTestPkg = False\<rparr>]\<rparr>"

section \<open>Wrapping nothing\<close>

lemma errors_Join_all_nil: "\<forall>e\<in>set errs. e = Nil \<Longrightarrow> errors_Join errs w = (Nil, w)"
  by (simp add: errors_Join_def filter_empty_conv)

text \<open>
  C6. For every builder \<open>b\<close>, wrapping the nil error yields the nil error and leaves
  the world as it was: \<^verbatim>\<open>Wrap(nil)\<close> and \<^verbatim>\<open>Wrapf(nil, format, args...)\<close> are nil, and
  so is \<^verbatim>\<open>Join\<close> of errors that are all nil, on any builder and through the
  package-level functions.
\<close>

theorem wrap_nil_is_nil:
  assumes "\<forall>e\<in>set errs. e = Nil"
  shows "ErrorBuilder_Wrap b Nil w = (Nil, w)
       \<and> ErrorBuilder_Wrapf b Nil s ws w = (Nil, w)
       \<and> ErrorBuilder_Join b errs w = (Nil, w)
       \<and> fst (Wrap Nil w) = Nil
       \<and> fst (Wrapf Nil s ws w) = Nil
       \<and> fst (Join errs w) = Nil"
proof -
  have wrap: "ErrorBuilder_wrap x Nil v = (None, v)" for x v
    by (simp add: ErrorBuilder_wrap_def)
  have join: "errors_Join errs v = (Nil, v)" for v
    using assms by (rule errors_Join_all_nil)
  show ?thesis
    by (simp add: ErrorBuilder_Wrap_def ErrorBuilder_Wrapf_def ErrorBuilder_Join_def
          Wrap_def Wrapf_def Join_def wrap join split: prod.splits)
qed

theorem wrap_nil_is_nil_witness:
  "ErrorBuilder_Wrap (ErrorBuilder_Reason (fst (newBuilder world0)) ''R'') Nil world0
       = (Nil, world0)
   \<and> ErrorBuilder_Join (ErrorBuilder_Reason (fst (newBuilder world0)) ''R'') [Nil, Nil] world0
       = (Nil, world0)
   \<and> fst (Join [Nil, Nil] world0) = Nil"
  using wrap_nil_is_nil [of "[Nil, Nil]" "ErrorBuilder_Reason (fst (newBuilder world0)) ''R''" world0]
  by simp

section \<open>Round trip through the builder\<close>

text \<open>
  C5. A request identifier set on the builder is lost when the node is built, and the
  node's time is the zero instant, not the time of construction: \<^verbatim>\<open>deepCopy\<close> names
  neither field. In \<open>world0\<close> the builder is made at instant 1000; the node built from
  it after \<^verbatim>\<open>RequestID("req-1")\<close> has no request identifier and the zero time, and
  its first \<^verbatim>\<open>Time()\<close> returns the instant of that reading, 1001. The fields
  \<^verbatim>\<open>deepCopy\<close> does name come back as they were set.
\<close>

theorem requestID_and_time_lost_on_build:
  "(case newBuilder world0 of (b, w1) \<Rightarrow>
      time (attrs b) = 1000 \<and>
      (case ErrorBuilder_Error
              (ErrorBuilder_Domain (ErrorBuilder_RequestID b ''req-1'') ''identity'') ''m'' w1 of
         (x, w2) \<Rightarrow>
           Error_RequestID (as_Error x) = Inr None
           \<and> Error_Domain (as_Error x) = Some ''identity''
           \<and> Error_Message (as_Error x) = Some ''m''
           \<and> recursiveAttr (as_Error x) (\<lambda>e. time (attrs e)) 0 = 0
           \<and> (case Error_Time (as_Error x) w2 of
                 Inl p \<Rightarrow> False
               | Inr (t, p, w3) \<Rightarrow> t = 1001)))"
  by (simp add: newBuilder_def world0_def time_Now_def ErrorBuilder_Error_def deepCopy_def
        alloc_def ErrorBuilder_RequestID_def ErrorBuilder_Domain_def with_attrs_def
        Error_RequestID_def Error_Domain_def Error_Message_def Error_Time_def IsZero_def
        deepCopyPtr_def)

section \<open>The traversals, in terms of the chain\<close>

lemma recursiveAttr_chain:
  "recursiveAttr p attr zero = (case chain p of [] \<Rightarrow> zero | n # ns \<Rightarrow> attr (last (n # ns)))"
proof (induction p attr zero rule: recursiveAttr.induct)
  case (1 attr zero)
  show ?case by simp
next
  case (2 a e attr zero)
  show ?case
  proof (cases "err e = Nil")
    case True
    then show ?thesis by simp
  next
    case False
    show ?thesis
    proof (cases "errors_As (err e)")
      case None
      with False show ?thesis by simp
    next
      case (Some child)
      obtain b c where child: "child = (b, c)" by (cases child)
      from 2 [OF False Some] False Some child show ?thesis
        by (simp split: list.splits)
    qed
  qed
qed

lemma recursive_chain:
  "recursive p tap s = foldl (\<lambda>s e. tap e s) s (chain p)"
proof (induction p tap s rule: recursive.induct)
  case (1 tap s)
  show ?case by simp
next
  case (2 a e tap s)
  show ?case
  proof (cases "err e = Nil")
    case True
    then show ?thesis by (simp add: Let_def)
  next
    case False
    show ?thesis
    proof (cases "errors_As (err e)")
      case None
      with False show ?thesis by (simp add: Let_def)
    next
      case (Some child)
      from 2 [OF refl False Some] False Some show ?thesis
        by (simp add: Let_def)
    qed
  qed
qed

lemma chain_nest:
  "errors_As base = None \<Longrightarrow>
   map attrs (chain (Some (a, Error (nest rest base) at))) = at # map snd rest"
proof (induction rest arbitrary: a at)
  case Nil
  then show ?case by simp
next
  case (Cons n rest)
  obtain b bt where n: "n = (b, bt)" by (cases n)
  from Cons show ?case by (simp add: n)
qed

section \<open>Tags\<close>

lemma remdups_snoc: "remdups (ys @ [x]) = filter (\<lambda>y. y \<noteq> x) (remdups ys) @ [x]"
  by (induction ys) auto

lemma lo_Uniq_loop_gen:
  "set result = seen \<Longrightarrow> distinct result \<Longrightarrow>
   lo_Uniq_loop xs seen result = result @ filter (\<lambda>x. x \<notin> seen) (rev (remdups (rev xs)))"
proof (induction xs arbitrary: seen result)
  case Nil
  then show ?case by simp
next
  case (Cons x xs)
  have rd: "rev (remdups (rev xs @ [x])) = x # filter (\<lambda>y. y \<noteq> x) (rev (remdups (rev xs)))"
    by (simp add: remdups_snoc rev_filter)
  show ?case
  proof (cases "x \<in> seen")
    case True
    with Cons show ?thesis
      by (auto simp: rd intro: filter_cong)
  next
    case False
    with Cons.prems have "lo_Uniq_loop xs (insert x seen) (result @ [x])
        = (result @ [x]) @ filter (\<lambda>y. y \<notin> insert x seen) (rev (remdups (rev xs)))"
      by (intro Cons.IH) auto
    with False show ?thesis
      by (auto simp: rd conj_commute intro: filter_cong)
  qed
qed

lemma lo_Uniq_first_seen: "lo_Uniq xs = rev (remdups (rev xs))"
  by (simp add: lo_Uniq_def lo_Uniq_loop_gen)

lemma foldl_append_concat: "foldl (\<lambda>ts e. ts @ f e) acc ns = acc @ concat (map f ns)"
  by (induction ns arbitrary: acc) simp_all

lemma Error_Tags_chain: "Error_Tags p = lo_Uniq (concat (map (\<lambda>e. tags (attrs e)) (chain p)))"
  by (simp add: Error_Tags_def recursive_chain foldl_append_concat)

text \<open>
  C9. \<^verbatim>\<open>Tags()\<close> on a node is the concatenation of the tag sequences of the nodes of
  its chain, outermost first, with every tag kept at its first occurrence only: the
  result has no duplicate, and a tag appended to the input is appended to the result
  exactly when it is new. For a plain chain of wraps around a cause \<open>base\<close> that holds
  no library node, these are the tags of the nodes in the order of wrapping, outermost
  first. (With tags \<open>x\<close> on the outer node and \<open>y\<close> on the inner one the result is
  \<open>x, y\<close>; it is \<open>x\<close> alone when both nodes carry \<open>x\<close>: see the witness.)
\<close>

theorem tags_aggregation:
  assumes "errors_As base = None"
  shows "Error_Tags p = lo_Uniq (concat (map (\<lambda>e. tags (attrs e)) (chain p)))
       \<and> Error_Tags (Some (a, Error (nest rest base) at))
           = lo_Uniq (concat (map tags (at # map snd rest)))
       \<and> distinct (Error_Tags p)
       \<and> lo_Uniq ([] :: string list) = []
       \<and> lo_Uniq (xs @ [x]) = (if x \<in> set xs then lo_Uniq xs else lo_Uniq xs @ [x])"
proof -
  have "map (\<lambda>e. tags (attrs e)) (chain (Some (a, Error (nest rest base) at)))
        = map tags (map attrs (chain (Some (a, Error (nest rest base) at))))"
    by (simp add: comp_def)
  also have "\<dots> = map tags (at # map snd rest)"
    using assms by (simp only: chain_nest)
  finally have "Error_Tags (Some (a, Error (nest rest base) at))
      = lo_Uniq (concat (map tags (at # map snd rest)))"
    by (simp only: Error_Tags_chain)
  moreover have "distinct (Error_Tags p)"
    by (simp add: Error_Tags_chain lo_Uniq_first_seen)
  moreover have "lo_Uniq (xs @ [x]) = (if x \<in> set xs then lo_Uniq xs else lo_Uniq xs @ [x])"
    by (simp add: lo_Uniq_first_seen)
  ultimately show ?thesis
    by (simp add: Error_Tags_chain lo_Uniq_def)
qed

theorem tags_aggregation_witness:
  "Error_Tags (Some (2, Error (nest [(1, attrs0\<lparr>tags := [''y'']\<rparr>)] (ErrorString 0 ''io''))
                            (attrs0\<lparr>tags := [''x'']\<rparr>))) = [''x'', ''y'']
   \<and> Error_Tags (Some (2, Error (nest [(1, attrs0\<lparr>tags := [''x'', ''y'']\<rparr>)] (ErrorString 0 ''io''))
                              (attrs0\<lparr>tags := [''x'']\<rparr>))) = [''x'', ''y'']
   \<and> Error_Tags (Some (2, Error (nest [(1, attrs0\<lparr>tags := [''x'']\<rparr>)] (ErrorString 0 ''io''))
                              (attrs0\<lparr>tags := [''x'']\<rparr>))) = [''x'']"
proof -
  have base: "errors_As (ErrorString 0 ''io'') = None"
    by simp
  show ?thesis
    using tags_aggregation [OF base, where a = 2 and rest = "[(1, attrs0\<lparr>tags := [''y'']\<rparr>)]"
                    and at = "attrs0\<lparr>tags := [''x'']\<rparr>", THEN conjunct2, THEN conjunct1]
          tags_aggregation [OF base, where a = 2 and rest = "[(1, attrs0\<lparr>tags := [''x'', ''y'']\<rparr>)]"
                    and at = "attrs0\<lparr>tags := [''x'']\<rparr>", THEN conjunct2, THEN conjunct1]
          tags_aggregation [OF base, where a = 2 and rest = "[(1, attrs0\<lparr>tags := [''x'']\<rparr>)]"
                    and at = "attrs0\<lparr>tags := [''x'']\<rparr>", THEN conjunct2, THEN conjunct1]
    by (simp add: lo_Uniq_def)
qed

section \<open>Span and request identifier\<close>

text \<open>
  C10. \<^verbatim>\<open>Span()\<close> and \<^verbatim>\<open>RequestID()\<close> return the field of the receiving node and
  nothing else: whatever the cause \<open>c\<close> is, the result is the node's own field, so it
  is absent when the node's own field is unset, also when a node further in has it set.
\<close>

theorem span_requestID_not_inherited:
  assumes "span at = None" and "requestID at = None"
  shows "Error_Span (Some (a, Error c at)) = Inr None
       \<and> Error_RequestID (Some (a, Error c at)) = Inr None
       \<and> Error_Span (Some (a, Error c at')) = Inr (span at')
       \<and> Error_RequestID (Some (a, Error c at')) = Inr (requestID at')"
  using assms by (simp add: Error_Span_def Error_RequestID_def)

theorem span_requestID_not_inherited_witness:
  "Error_Span (Some (2, Error (nest [(1, attrs0\<lparr>span := Some ''s'', requestID := Some ''r''\<rparr>)] Nil)
                            (attrs0\<lparr>reason := Some ''outer''\<rparr>))) = Inr None
   \<and> Error_RequestID (Some (2, Error (nest [(1, attrs0\<lparr>span := Some ''s'', requestID := Some ''r''\<rparr>)] Nil)
                            (attrs0\<lparr>reason := Some ''outer''\<rparr>))) = Inr None
   \<and> Error_Span (as_Error (nest [(1, attrs0\<lparr>span := Some ''s'', requestID := Some ''r''\<rparr>)] Nil))
       = Inr (Some ''s'')
   \<and> Error_RequestID (as_Error (nest [(1, attrs0\<lparr>span := Some ''s'', requestID := Some ''r''\<rparr>)] Nil))
       = Inr (Some ''r'')"
  using span_requestID_not_inherited [of "attrs0\<lparr>reason := Some ''outer''\<rparr>" 2
          "nest [(1, attrs0\<lparr>span := Some ''s'', requestID := Some ''r''\<rparr>)] Nil"
          "attrs0\<lparr>span := Some ''s'', requestID := Some ''r''\<rparr>"]
  by (simp add: attrs0_def Error_Span_def Error_RequestID_def)

section \<open>Identity of a wrapped error\<close>

lemma iface_eq_refl: "iface_eq x x"
  by (cases x) simp_all

lemma errors_is_self: "x \<noteq> Nil \<Longrightarrow> errors_is x x"
  by (cases x) (simp_all add: iface_eq_refl)

lemma errors_Is_self: "x \<noteq> Nil \<Longrightarrow> errors_Is x x"
  by (simp add: errors_is_self errors_Is.simps)

lemma errors_is_list_member: "s \<in> set es \<Longrightarrow> s \<noteq> Nil \<Longrightarrow> errors_is_list es s"
  by (induction es) (auto simp: errors_is_self)

lemma node_Is_through_cause:
  assumes "errors_Is (err e) s" and "s \<noteq> Nil"
  shows "errors_Is (ErrorPtr p e) s"
  using assms by (simp add: errors_Is.simps [of "ErrorPtr p e"] Error_Is.simps)

lemma wrapper_Is:
  assumes "s \<noteq> Nil"
  shows "e \<noteq> Nil \<Longrightarrow> errors_is e s \<Longrightarrow> errors_Is (WrapError a msg e) s"
    and "errors_is_list es s \<Longrightarrow> errors_Is (WrapErrors a msg es) s"
    and "errors_is_list es s \<Longrightarrow> errors_Is (JoinError a es) s"
  using assms by (simp_all add: errors_Is.simps)

lemma fmt_Errorf_Is:
  assumes "s \<in> set ws" and "s \<noteq> Nil"
  shows "errors_Is (fst (fmt_Errorf msg ws w)) s"
proof -
  from assms have mem: "s \<in> set (filter (\<lambda>e. e \<noteq> Nil) ws)"
    by simp
  show ?thesis
  proof (cases "filter (\<lambda>e. e \<noteq> Nil) ws")
    case Nil
    with mem show ?thesis by simp
  next
    case (Cons e es)
    show ?thesis
    proof (cases es)
      case Nil
      with Cons mem have "e = s" by simp
      with assms(2) have "errors_Is (WrapError (next_addr w) msg e) s"
        by (intro wrapper_Is(1)) (simp_all add: errors_is_self)
      with Cons Nil show ?thesis
        by (simp only: fmt_Errorf_def alloc_def list.case prod.case fst_conv)
    next
      case es: (Cons e' es')
      from Cons mem assms(2) have "errors_is_list (e # es) s"
        by (intro errors_is_list_member) simp_all
      with assms(2) have "errors_Is (WrapErrors (next_addr w) msg (e # es)) s"
        by (intro wrapper_Is(2))
      with Cons es show ?thesis
        by (simp only: fmt_Errorf_def alloc_def list.case prod.case fst_conv)
    qed
  qed
qed

lemma errors_Join_Is:
  assumes "s \<in> set errs" and "s \<noteq> Nil"
  shows "errors_Is (fst (errors_Join errs w)) s"
proof -
  from assms have mem: "s \<in> set (filter (\<lambda>e. e \<noteq> Nil) errs)"
    by simp
  from assms have ne: "filter (\<lambda>e. e \<noteq> Nil) errs \<noteq> []"
    by (auto simp: filter_empty_conv)
  from mem assms(2) have "errors_is_list (filter (\<lambda>e. e \<noteq> Nil) errs) s"
    by (rule errors_is_list_member)
  with assms(2) have "errors_Is (JoinError (next_addr w) (filter (\<lambda>e. e \<noteq> Nil) errs)) s"
    by (intro wrapper_Is(3))
  with ne show ?thesis
    by (simp only: errors_Join_def alloc_def Let_def if_False prod.case fst_conv)
qed

lemma ErrorBuilder_wrap_node:
  assumes "er \<noteq> Nil"
  shows "\<exists>p e. fst (ErrorBuilder_wrap b er w) = Some (p, e) \<and> err e = er"
  using assms by (simp add: ErrorBuilder_wrap_def split: prod.splits)

lemma ErrorBuilder_Wrap_Is:
  assumes "errors_Is er s" and "s \<noteq> Nil"
  shows "errors_Is (fst (ErrorBuilder_Wrap b er w)) s"
proof -
  from assms have "er \<noteq> Nil" by (auto simp: errors_Is.simps)
  from ErrorBuilder_wrap_node [OF this, of b w] obtain p e
    where pe: "fst (ErrorBuilder_wrap b er w) = Some (p, e)" "err e = er" by blast
  then have "fst (ErrorBuilder_Wrap b er w) = ErrorPtr p e"
    by (cases "ErrorBuilder_wrap b er w") (simp add: ErrorBuilder_Wrap_def)
  with pe assms show ?thesis
    by (auto intro: node_Is_through_cause)
qed

lemma ErrorBuilder_Wrapf_Is:
  assumes "errors_Is er s" and "s \<noteq> Nil"
  shows "errors_Is (fst (ErrorBuilder_Wrapf b er msg ws w)) s"
proof -
  from assms have "er \<noteq> Nil" by (auto simp: errors_Is.simps)
  from ErrorBuilder_wrap_node [OF this, of b w] obtain p e
    where pe: "fst (ErrorBuilder_wrap b er w) = Some (p, e)" "err e = er" by blast
  then have "fst (ErrorBuilder_Wrapf b er msg ws w)
      = ErrorPtr p (with_attrs e (\<lambda>x. x\<lparr>message := Some msg\<rparr>))"
    by (cases "ErrorBuilder_wrap b er w") (simp add: ErrorBuilder_Wrapf_def split: prod.splits)
  moreover from pe have "err (with_attrs e (\<lambda>x. x\<lparr>message := Some msg\<rparr>)) = er"
    by (simp add: with_attrs_def)
  ultimately show ?thesis
    using assms by (auto intro: node_Is_through_cause)
qed

lemma ErrorBuilder_Errorf_node:
  "\<exists>p e. fst (ErrorBuilder_Errorf b msg ws w) = ErrorPtr p e
         \<and> err e = fst (fmt_Errorf msg ws (snd (deepCopy b w)))"
  by (simp add: ErrorBuilder_Errorf_def split: prod.splits)

lemma ErrorBuilder_Errorf_Is:
  assumes "s \<in> set ws" and "s \<noteq> Nil"
  shows "errors_Is (fst (ErrorBuilder_Errorf b msg ws w)) s"
proof -
  from ErrorBuilder_Errorf_node [of b msg ws w] obtain p e
    where pe: "fst (ErrorBuilder_Errorf b msg ws w) = ErrorPtr p e"
      "err e = fst (fmt_Errorf msg ws (snd (deepCopy b w)))" by blast
  from assms have "errors_Is (err e) s"
    unfolding pe(2) by (rule fmt_Errorf_Is)
  with pe assms(2) show ?thesis
    by (auto intro: node_Is_through_cause)
qed

text \<open>
  C7. For every non-nil error \<open>s\<close>, a node made by wrapping \<open>s\<close> matches \<open>s\<close> under
  \<^verbatim>\<open>errors.Is\<close>: the node \<^verbatim>\<open>Wrap(s)\<close> (and \<^verbatim>\<open>Wrapf(s, ...)\<close>), the node
  \<^verbatim>\<open>Errorf(format, args...)\<close> when \<open>s\<close> is one of the errors under a \<^verbatim>\<open>%w\<close> of the
  format, and the node \<^verbatim>\<open>Join(errs...)\<close> when \<open>s\<close> is one of \<open>errs\<close>; on any builder
  and through the package-level functions.
\<close>

theorem wrapped_sentinel_Is:
  assumes "s \<noteq> Nil" and "s \<in> set ws" and "s \<in> set errs"
  shows "errors_Is (fst (ErrorBuilder_Wrap b s w)) s
       \<and> errors_Is (fst (ErrorBuilder_Wrapf b s msg ws' w)) s
       \<and> errors_Is (fst (ErrorBuilder_Errorf b msg ws w)) s
       \<and> errors_Is (fst (ErrorBuilder_Join b errs w)) s
       \<and> errors_Is (fst (Wrap s w)) s
       \<and> errors_Is (fst (Errorf msg ws w)) s
       \<and> errors_Is (fst (Join errs w)) s"
proof -
  have self: "errors_Is s s"
    using assms(1) by (rule errors_Is_self)
  have join: "errors_Is (fst (ErrorBuilder_Join x errs v)) s" for x v
    using errors_Join_Is [OF assms(3) assms(1), of v]
    by (cases "errors_Join errs v") (simp add: ErrorBuilder_Join_def ErrorBuilder_Wrap_Is assms(1))
  show ?thesis
    using assms
    by (simp add: ErrorBuilder_Wrap_Is ErrorBuilder_Wrapf_Is ErrorBuilder_Errorf_Is self join
          Wrap_def Errorf_def Join_def split: prod.splits)
qed

theorem wrapped_sentinel_Is_witness:
  "errors_Is (fst (Wrap (ErrorString 7 ''file already exists'') world0))
     (ErrorString 7 ''file already exists'')
   \<and> errors_Is (fst (Errorf ''Error: file already exists'' [ErrorString 7 ''file already exists''] world0))
       (ErrorString 7 ''file already exists'')
   \<and> errors_Is (fst (Join [ErrorString 8 ''general error for testing'',
                           ErrorString 7 ''file already exists''] world0))
       (ErrorString 7 ''file already exists'')"
  using wrapped_sentinel_Is [of "ErrorString 7 ''file already exists''"
          "[ErrorString 7 ''file already exists'']"
          "[ErrorString 8 ''general error for testing'', ErrorString 7 ''file already exists'']"
          _ world0]
  by simp

end
